theory Spec2Isabelle
  imports Main "HOL-Library.AList"
begin

section \<open>Values, collaborators and observable calls\<close>

text \<open>
  The repository holds three variants of one program: \<^verbatim>\<open>callisto.py\<close> (a script with
  module-level globals), \<^verbatim>\<open>chzzk-recorder.py\<close> (class \<^verbatim>\<open>ChzzkRecorder\<close>) and
  \<^verbatim>\<open>hosting.py\<close> (the same class plus \<^verbatim>\<open>recording_info\<close>, \<^verbatim>\<open>get_status\<close>,
  \<^verbatim>\<open>stop_recording\<close> and a web front end).

  A decoded JSON document is a Python value; \<^verbatim>\<open>None\<close> is \<open>JNull\<close>, a \<^verbatim>\<open>dict\<close> is
  \<open>JObj\<close> with lookup by \<open>map_of\<close>.
\<close>

datatype json =
    JNull
  | JBool bool
  | JNum int
  | JStr string
  | JArr "json list"
  | JObj "(string \<times> json) list"

text \<open>
  What \<^verbatim>\<open>requests.get(url, headers=..., timeout=10)\<close> does: it raises a
  \<^verbatim>\<open>RequestException\<close> (connection error, timeout), or it returns a response with a
  status code and a body that is valid JSON (\<open>Some\<close>) or not (\<open>None\<close>).
\<close>

datatype response = RequestFailed | Reply nat "json option"

datatype exn =
    RequestException
  | HTTPError
  | JSONDecodeError
  | AttributeError
  | ValueError
  | RuntimeError
  | UnboundLocalError
  | KeyboardInterrupt
  | SystemExit int

text \<open>
  \<^verbatim>\<open>except requests.exceptions.RequestException\<close> catches the first three;
  \<^verbatim>\<open>except Exception\<close> catches everything but \<^verbatim>\<open>KeyboardInterrupt\<close> and
  \<^verbatim>\<open>SystemExit\<close>.
\<close>

fun is_RequestException :: "exn \<Rightarrow> bool" where
  "is_RequestException RequestException = True"
| "is_RequestException HTTPError = True"
| "is_RequestException JSONDecodeError = True"
| "is_RequestException _ = False"

fun is_Exception :: "exn \<Rightarrow> bool" where
  "is_Exception KeyboardInterrupt = False"
| "is_Exception (SystemExit c) = False"
| "is_Exception _ = True"

datatype level = INFO | WARNING | ERROR

text \<open>
  The calls the program makes on its collaborators, in the order it makes them. A logger
  call is recorded with its level only. \<open>Launch\<close> marks one call of
  \<^verbatim>\<open>run_streamlink(title, channel_name)\<close>; \<open>Popen\<close> carries the pid of the started
  process, or \<open>None\<close> when \<^verbatim>\<open>subprocess.Popen\<close> raised.
\<close>

datatype action =
    Log level
  | HttpGet
  | Launch json json
  | Popen "nat option"
  | ThreadStart nat
  | Sleep int
  | PollProc nat
  | Wait nat
  | Terminate nat
  | WaitTimeout nat int
  | Kill nat

section \<open>\<^verbatim>\<open>get_live_info\<close>\<close>

text \<open>\<^verbatim>\<open>obj.get(key, default)\<close>: only a \<^verbatim>\<open>dict\<close> has the method.\<close>

fun py_get :: "json \<Rightarrow> string \<Rightarrow> json \<Rightarrow> exn + json" where
  "py_get (JObj kvs) k d = Inr (case map_of kvs k of None \<Rightarrow> d | Some v \<Rightarrow> v)"
| "py_get _ k d = Inl AttributeError"

text \<open>
  \<^verbatim>\<open>requests.get\<close>, \<^verbatim>\<open>response.raise_for_status()\<close> (which raises for the codes
  400 to 599) and \<^verbatim>\<open>response.json()\<close>.
\<close>

definition fetch_json :: "response \<Rightarrow> exn + json" where
  "fetch_json r =
     (case r of
        RequestFailed \<Rightarrow> Inl RequestException
      | Reply code body \<Rightarrow>
          if 400 \<le> code \<and> code < 600 then Inl HTTPError
          else (case body of None \<Rightarrow> Inl JSONDecodeError | Some d \<Rightarrow> Inr d))"

type_synonym live_info = "json \<times> json \<times> json"

definition none3 :: live_info where
  "none3 = (JNull, JNull, JNull)"

text \<open>The body of the \<^verbatim>\<open>try\<close> block of \<^verbatim>\<open>get_live_info\<close>.\<close>

definition live_info_body :: "response \<Rightarrow> (exn + live_info) \<times> action list" where
  "live_info_body r =
     (case fetch_json r of
        Inl e \<Rightarrow> (Inl e, [HttpGet])
      | Inr d \<Rightarrow>
         (case py_get d ''content'' JNull of
            Inl e \<Rightarrow> (Inl e, [HttpGet])
          | Inr content \<Rightarrow>
             if content = JNull then (Inr none3, [HttpGet, Log INFO])
             else
              (case py_get content ''status'' JNull of
                 Inl e \<Rightarrow> (Inl e, [HttpGet])
               | Inr status \<Rightarrow>
                  (case py_get content ''liveTitle'' (JStr ''Unknown Title'') of
                     Inl e \<Rightarrow> (Inl e, [HttpGet])
                   | Inr title \<Rightarrow>
                      (case py_get content ''channel'' (JObj []) of
                         Inl e \<Rightarrow> (Inl e, [HttpGet])
                       | Inr channel \<Rightarrow>
                          (case py_get channel ''channelName'' (JStr ''UnknownChannel'') of
                             Inl e \<Rightarrow> (Inl e, [HttpGet])
                           | Inr channel_name \<Rightarrow>
                               (Inr (status, title, channel_name), [HttpGet])))))))"

text \<open>
  \<^verbatim>\<open>get_live_info\<close> with its two handlers. An exception that neither handler catches
  leaves the function.
\<close>

definition get_live_info :: "response \<Rightarrow> (exn + live_info) \<times> action list" where
  "get_live_info r =
     (case live_info_body r of
        (Inr info, acts) \<Rightarrow> (Inr info, acts)
      | (Inl e, acts) \<Rightarrow>
          if is_RequestException e then (Inr none3, acts @ [Log ERROR])
          else if is_Exception e then (Inr none3, acts @ [Log ERROR])
          else (Inl e, acts))"

text \<open>The status query failed: the \<^verbatim>\<open>try\<close> block of \<^verbatim>\<open>get_live_info\<close> raised.\<close>

definition query_failed :: "response \<Rightarrow> bool" where
  "query_failed r = (case fst (live_info_body r) of Inl e \<Rightarrow> True | Inr info \<Rightarrow> False)"

text \<open>The reply has no \<^verbatim>\<open>content\<close>: the branch \<^verbatim>\<open>if content is None\<close>.\<close>

definition no_content :: "response \<Rightarrow> bool" where
  "no_content r =
     (case fetch_json r of
        Inl e \<Rightarrow> False
      | Inr d \<Rightarrow> (case py_get d ''content'' JNull of Inl e \<Rightarrow> False | Inr c \<Rightarrow> c = JNull))"

section \<open>Configuration and recorder state\<close>

text \<open>
  \<^verbatim>\<open>RETRY_COUNT\<close> and \<^verbatim>\<open>CHECK_INTERVAL\<close> are read with \<^verbatim>\<open>int(os.getenv(...))\<close>
  (defaults 3 and 60), so they are Python integers of either sign. \<open>keeps_info\<close> tells
  the variants apart: it is \<open>True\<close> for \<^verbatim>\<open>hosting.py\<close>, whose recorder keeps the
  dictionary \<^verbatim>\<open>recording_info\<close>, and \<open>False\<close> for \<^verbatim>\<open>chzzk-recorder.py\<close> and
  \<^verbatim>\<open>callisto.py\<close>, whose methods are the same text without the assignments to it.
\<close>

record config =
  retry_count_max :: int
  check_interval :: int
  keeps_info :: bool

definition default_config :: "bool \<Rightarrow> config" where
  "default_config web = \<lparr>retry_count_max = 3, check_interval = 60, keeps_info = web\<rparr>"

text \<open>
  The state variables of \<^verbatim>\<open>ChzzkRecorder.__init__\<close>. A process is its pid. The status
  kept in \<^verbatim>\<open>last_status\<close> is whatever \<^verbatim>\<open>get_live_info\<close> returned (\<open>JNull\<close> for
  \<^verbatim>\<open>None\<close>). \<^verbatim>\<open>recording_info\<close> is a \<^verbatim>\<open>dict\<close> in insertion order.
\<close>

record recorder =
  current_recording_process :: "nat option"
  shutdown_flag :: bool
  last_status :: json
  retry_count :: nat
  recording_info :: "(string \<times> json) list"

definition init :: recorder where
  "init = \<lparr>current_recording_process = None, shutdown_flag = False, last_status = JNull,
            retry_count = 0, recording_info = []\<rparr>"

text \<open>
  A method returns a value or raises; either way the assignments it made and the calls
  it made before that stay.
\<close>

type_synonym 'a result = "(exn + 'a) \<times> recorder \<times> action list"

section \<open>Launching: \<^verbatim>\<open>run_streamlink\<close> and \<^verbatim>\<open>handle_live_start\<close>\<close>

text \<open>
  What one call of \<^verbatim>\<open>run_streamlink\<close> meets: the output path it computes (the clock,
  the file name cleaning and \<^verbatim>\<open>os.path.join\<close> are not modelled; the path is given),
  the clock reading stored as \<^verbatim>\<open>start_time\<close>, and whether \<^verbatim>\<open>subprocess.Popen\<close>
  starts a process (its pid) or raises.
\<close>

record launch_env =
  output_file :: string
  start_time :: string
  popen :: "nat option"

text \<open>
  \<^verbatim>\<open>title.strip()\<close> raises \<^verbatim>\<open>AttributeError\<close> unless the title is a string. The
  whole body is inside \<^verbatim>\<open>try ... except Exception\<close>, whose handler clears
  \<^verbatim>\<open>current_recording_process\<close> and returns \<^verbatim>\<open>None\<close>. In \<^verbatim>\<open>hosting.py\<close>
  \<^verbatim>\<open>recording_info\<close> is assigned before \<^verbatim>\<open>Popen\<close> is called.
\<close>

definition run_streamlink ::
  "config \<Rightarrow> launch_env \<Rightarrow> json \<Rightarrow> json \<Rightarrow> recorder \<Rightarrow> nat option \<times> recorder \<times> action list" where
  "run_streamlink cfg e title channel_name s =
     (case title of
        JStr t \<Rightarrow>
          (let s1 = (if keeps_info cfg
                     then s\<lparr>recording_info :=
                            [(''title'', title),
                             (''channel_name'', channel_name),
                             (''output_file'', JStr (output_file e)),
                             (''start_time'', JStr (start_time e)),
                             (''status'', JStr ''recording'')]\<rparr>
                     else s)
           in (case popen e of
                 Some pid \<Rightarrow>
                   (Some pid, s1\<lparr>current_recording_process := Some pid\<rparr>,
                    [Launch title channel_name, Log INFO, Popen (Some pid), Log INFO])
               | None \<Rightarrow>
                   (None, s1\<lparr>current_recording_process := None\<rparr>,
                    [Launch title channel_name, Log INFO, Popen None, Log ERROR])))
      | _ \<Rightarrow>
          (None, s\<lparr>current_recording_process := None\<rparr>,
           [Launch title channel_name, Log ERROR]))"

text \<open>
  What one iteration of the poll loop meets: the reply to the status query, the
  environment of each launch attempt (by attempt number), whether
  \<^verbatim>\<open>monitor_thread.start()\<close> succeeds (it raises \<^verbatim>\<open>RuntimeError\<close> when no thread can
  be started), and whether \<^verbatim>\<open>process.poll()\<close> reports that the process has exited.
  The monitor thread itself runs concurrently and is not part of this sequential model.
\<close>

record poll_env =
  reply :: response
  launches :: "nat \<Rightarrow> launch_env"
  thread_starts :: bool
  has_exited :: bool

text \<open>
  The loop \<^verbatim>\<open>for attempt in range(retry_count_max)\<close> over the attempt numbers still to
  run: \<^verbatim>\<open>break\<close> after a successful launch, otherwise a warning and, unless
  \<^verbatim>\<open>attempt >= retry_count_max - 1\<close>, \<^verbatim>\<open>time.sleep(5)\<close>.
\<close>

fun launch_loop ::
  "config \<Rightarrow> poll_env \<Rightarrow> json \<Rightarrow> json \<Rightarrow> nat list \<Rightarrow> recorder \<Rightarrow> unit result" where
  "launch_loop cfg env title channel_name [] s = (Inr (), s, [])"
| "launch_loop cfg env title channel_name (attempt # rest) s =
     (case run_streamlink cfg (launches env attempt) title channel_name s of
        (Some pid, s1, a1) \<Rightarrow>
          if thread_starts env then (Inr (), s1, a1 @ [ThreadStart pid])
          else (Inl RuntimeError, s1, a1)
      | (None, s1, a1) \<Rightarrow>
          (case launch_loop cfg env title channel_name rest s1 of
             (r, s2, a2) \<Rightarrow>
               (r, s2,
                a1 @ [Log WARNING]
                   @ (if int attempt < retry_count_max cfg - 1 then [Sleep 5] else [])
                   @ a2)))"

definition handle_live_start ::
  "config \<Rightarrow> poll_env \<Rightarrow> json \<Rightarrow> json \<Rightarrow> recorder \<Rightarrow> unit result" where
  "handle_live_start cfg env title channel_name s =
     (case launch_loop cfg env title channel_name [0..<nat (retry_count_max cfg)] s of
        (r, s1, a) \<Rightarrow> (r, s1, [Log INFO, Log INFO, Log INFO] @ a))"

section \<open>\<^verbatim>\<open>handle_live_end\<close>, \<^verbatim>\<open>check_recording_status\<close> and the poll loop\<close>

definition handle_live_end :: "recorder \<Rightarrow> recorder \<times> action list" where
  "handle_live_end s =
     (case current_recording_process s of
        Some pid \<Rightarrow> (s\<lparr>current_recording_process := None\<rparr>, [Log INFO, Log INFO, Wait pid])
      | None \<Rightarrow> (s, [Log INFO]))"

definition check_recording_status :: "poll_env \<Rightarrow> recorder \<Rightarrow> recorder \<times> action list" where
  "check_recording_status env s =
     (case current_recording_process s of
        Some pid \<Rightarrow>
          if has_exited env
          then (s\<lparr>current_recording_process := None\<rparr>, [PollProc pid, Log WARNING])
          else (s, [PollProc pid])
      | None \<Rightarrow> (s, []))"

text \<open>
  The \<^verbatim>\<open>try\<close> block of \<^verbatim>\<open>ChzzkRecorder.check_stream\<close>. \<^verbatim>\<open>time.sleep\<close> raises
  \<^verbatim>\<open>ValueError\<close> for a negative length, which only \<^verbatim>\<open>check_interval\<close> can be.
\<close>

definition poll_body :: "config \<Rightarrow> poll_env \<Rightarrow> recorder \<Rightarrow> unit result" where
  "poll_body cfg env s =
     (case get_live_info (reply env) of
        (Inl e, a0) \<Rightarrow> (Inl e, s, a0)
      | (Inr (status, title, channel_name), a0) \<Rightarrow>
          if status = JStr ''OPEN'' then
            (case (if last_status s \<noteq> JStr ''OPEN''
                   then handle_live_start cfg env title channel_name s
                   else (Inr (), s, [])) of
               (Inl e, s1, a1) \<Rightarrow> (Inl e, s1, a0 @ a1)
             | (Inr u, s1, a1) \<Rightarrow>
                 (case check_recording_status env s1 of
                    (s2, a2) \<Rightarrow>
                      (Inr (), s2\<lparr>last_status := status, retry_count := 0\<rparr>,
                       a0 @ a1 @ a2 @ [Sleep 10])))
          else
            (case (if last_status s = JStr ''OPEN'' then handle_live_end s else (s, [])) of
               (s1, a1) \<Rightarrow>
                 if check_interval cfg < 0 then (Inl ValueError, s1, a0 @ a1 @ [Log INFO])
                 else (Inr (), s1\<lparr>last_status := status, retry_count := 0\<rparr>,
                       a0 @ a1 @ [Log INFO, Sleep (check_interval cfg)])))"

text \<open>
  The \<^verbatim>\<open>try\<close> block of \<^verbatim>\<open>check_stream\<close> in \<^verbatim>\<open>callisto.py\<close>. That function assigns
  \<^verbatim>\<open>current_recording_process = None\<close> (lines 222 and 234) and has no \<^verbatim>\<open>global\<close>
  declaration for the name, so Python compiles every occurrence of the name in the
  function as a local variable. The local is never assigned before it is read: the test
  \<^verbatim>\<open>if current_recording_process:\<close> on line 219 (every live poll) and on line 231 (an
  offline poll after a live one) raises \<^verbatim>\<open>UnboundLocalError\<close>. The launch loop before
  line 219 is the text of \<^verbatim>\<open>handle_live_start\<close>; \<^verbatim>\<open>run_streamlink\<close> declares the
  global and assigns it.
\<close>

definition callisto_poll_body :: "config \<Rightarrow> poll_env \<Rightarrow> recorder \<Rightarrow> unit result" where
  "callisto_poll_body cfg env s =
     (case get_live_info (reply env) of
        (Inl e, a0) \<Rightarrow> (Inl e, s, a0)
      | (Inr (status, title, channel_name), a0) \<Rightarrow>
          if status = JStr ''OPEN'' then
            (case (if last_status s \<noteq> JStr ''OPEN''
                   then handle_live_start (cfg\<lparr>keeps_info := False\<rparr>) env title channel_name s
                   else (Inr (), s, [])) of
               (Inl e, s1, a1) \<Rightarrow> (Inl e, s1, a0 @ a1)
             | (Inr u, s1, a1) \<Rightarrow> (Inl UnboundLocalError, s1, a0 @ a1))
          else if last_status s = JStr ''OPEN'' then (Inl UnboundLocalError, s, a0 @ [Log INFO])
          else if check_interval cfg < 0 then (Inl ValueError, s, a0 @ [Log INFO])
          else (Inr (), s\<lparr>last_status := status, retry_count := 0\<rparr>,
                a0 @ [Log INFO, Sleep (check_interval cfg)]))"

text \<open>
  The handlers of the loop, the same in the three files: \<^verbatim>\<open>KeyboardInterrupt\<close> leaves
  the loop; any \<^verbatim>\<open>Exception\<close> adds one to \<^verbatim>\<open>retry_count\<close> and leaves the loop at 5,
  or sleeps 30 seconds; anything else propagates.
\<close>

datatype flow = Continue | Break

definition handle_errors :: "unit result \<Rightarrow> flow result" where
  "handle_errors res =
     (case res of
        (Inr u, s1, a) \<Rightarrow> (Inr Continue, s1, a)
      | (Inl e, s1, a) \<Rightarrow>
          if e = KeyboardInterrupt then (Inr Break, s1, a @ [Log INFO])
          else if is_Exception e then
            (let s2 = s1\<lparr>retry_count := retry_count s1 + 1\<rparr>
             in if retry_count s2 \<ge> 5 then (Inr Break, s2, a @ [Log ERROR, Log ERROR])
                else (Inr Continue, s2, a @ [Log ERROR, Sleep 30]))
          else (Inl e, s1, a))"

text \<open>
  \<^verbatim>\<open>while not shutdown_flag\<close> run on a finite sequence of iteration environments. The
  loop has no bound of its own: \<open>Polling\<close> says that it is still running when the given
  environments are used up, \<open>Returned\<close> that it was left (by the flag or by
  \<^verbatim>\<open>break\<close>), \<open>Raised\<close> that an exception left it.
\<close>

datatype loop_end = Polling | Returned | Raised exn

fun poll_loop ::
  "(poll_env \<Rightarrow> recorder \<Rightarrow> unit result) \<Rightarrow> poll_env list \<Rightarrow> recorder
     \<Rightarrow> loop_end \<times> recorder \<times> action list" where
  "poll_loop body [] s = (if shutdown_flag s then Returned else Polling, s, [])"
| "poll_loop body (env # rest) s =
     (if shutdown_flag s then (Returned, s, [])
      else
        (case handle_errors (body env s) of
           (Inr Continue, s1, a) \<Rightarrow>
             (case poll_loop body rest s1 of (r, s2, a2) \<Rightarrow> (r, s2, a @ a2))
         | (Inr Break, s1, a) \<Rightarrow> (Returned, s1, a)
         | (Inl e, s1, a) \<Rightarrow> (Raised e, s1, a)))"

definition check_stream ::
  "config \<Rightarrow> poll_env list \<Rightarrow> recorder \<Rightarrow> loop_end \<times> recorder \<times> action list" where
  "check_stream cfg envs s = poll_loop (poll_body cfg) envs (s\<lparr>retry_count := 0\<rparr>)"

text \<open>In \<^verbatim>\<open>callisto.py\<close> \<^verbatim>\<open>retry_count\<close> and \<^verbatim>\<open>last_status\<close> are locals of the function.\<close>

definition callisto_check_stream ::
  "config \<Rightarrow> poll_env list \<Rightarrow> recorder \<Rightarrow> loop_end \<times> recorder \<times> action list" where
  "callisto_check_stream cfg envs s =
     poll_loop (callisto_poll_body cfg) envs (s\<lparr>retry_count := 0, last_status := JNull\<rparr>)"



section \<open>Stopping: \<^verbatim>\<open>_signal_handler\<close> and \<^verbatim>\<open>stop_recording\<close>\<close>

text \<open>
  How the statement \<^verbatim>\<open>try: terminate(); wait(timeout=10)\<close> with its handlers ends: the
  process exits in time; \<^verbatim>\<open>wait\<close> raises \<^verbatim>\<open>TimeoutExpired\<close> and \<^verbatim>\<open>kill()\<close>
  returns; one of the two calls of the \<^verbatim>\<open>try\<close> block raises another \<^verbatim>\<open>Exception\<close>,
  which \<^verbatim>\<open>except Exception\<close> logs; or \<^verbatim>\<open>wait\<close> raises \<^verbatim>\<open>TimeoutExpired\<close> and the
  statement \<^verbatim>\<open>self.current_recording_process.kill()\<close> raises in its turn. That
  statement stands inside the handler \<^verbatim>\<open>except subprocess.TimeoutExpired\<close>, where the
  sibling handler \<^verbatim>\<open>except Exception\<close> does not apply: its exception leaves the
  \<^verbatim>\<open>try\<close> statement. A call is recorded when it is made, whether it returns or
  raises.
\<close>

datatype term_outcome =
    ExitsInTime
  | TimesOut
  | TerminateRaises
  | WaitRaises
  | KillRaises exn

text \<open>
  \<^verbatim>\<open>_signal_handler\<close> (the handler of \<^verbatim>\<open>SIGINT\<close> and \<^verbatim>\<open>SIGTERM\<close>) ends with
  \<^verbatim>\<open>sys.exit(0)\<close>, which raises \<^verbatim>\<open>SystemExit\<close> in the main thread; an exception of
  \<^verbatim>\<open>kill()\<close> leaves the handler before that.
\<close>

definition signal_handler :: "term_outcome \<Rightarrow> recorder \<Rightarrow> unit result" where
  "signal_handler t s =
     (let s1 = s\<lparr>shutdown_flag := True\<rparr>
      in (case current_recording_process s1 of
            Some pid \<Rightarrow>
              (case t of
                 ExitsInTime \<Rightarrow>
                   (Inl (SystemExit 0), s1,
                    [Log INFO, Log INFO, Terminate pid, WaitTimeout pid 10])
               | TimesOut \<Rightarrow>
                   (Inl (SystemExit 0), s1,
                    [Log INFO, Log INFO, Terminate pid, WaitTimeout pid 10, Kill pid])
               | TerminateRaises \<Rightarrow>
                   (Inl (SystemExit 0), s1,
                    [Log INFO, Log INFO, Terminate pid, Log ERROR])
               | WaitRaises \<Rightarrow>
                   (Inl (SystemExit 0), s1,
                    [Log INFO, Log INFO, Terminate pid, WaitTimeout pid 10, Log ERROR])
               | KillRaises e \<Rightarrow>
                   (Inl e, s1,
                    [Log INFO, Log INFO, Terminate pid, WaitTimeout pid 10, Kill pid]))
          | None \<Rightarrow> (Inl (SystemExit 0), s1, [Log INFO])))"

text \<open>
  \<^verbatim>\<open>stop_recording\<close> of \<^verbatim>\<open>hosting.py\<close>; \<open>now\<close> is the clock reading stored as
  \<^verbatim>\<open>end_time\<close>. Assigning to a key of a \<^verbatim>\<open>dict\<close> replaces the value in place or
  appends the key. The \<^verbatim>\<open>finally\<close> block runs on every path, also before an exception
  of \<^verbatim>\<open>kill()\<close> leaves the method.
\<close>

definition stop_recording :: "term_outcome \<Rightarrow> string \<Rightarrow> recorder \<Rightarrow> unit result" where
  "stop_recording t now s =
     (case current_recording_process s of
        Some pid \<Rightarrow>
          (let s1 = s\<lparr>current_recording_process := None,
                      recording_info :=
                        AList.update ''end_time'' (JStr now)
                          (AList.update ''status'' (JStr ''stopped'') (recording_info s))\<rparr>
           in (case t of
                 ExitsInTime \<Rightarrow>
                   (Inr (), s1, [Log INFO, Terminate pid, WaitTimeout pid 10, Log INFO])
               | TimesOut \<Rightarrow>
                   (Inr (), s1, [Log INFO, Terminate pid, WaitTimeout pid 10, Kill pid, Log INFO])
               | TerminateRaises \<Rightarrow>
                   (Inr (), s1, [Log INFO, Terminate pid, Log ERROR])
               | WaitRaises \<Rightarrow>
                   (Inr (), s1, [Log INFO, Terminate pid, WaitTimeout pid 10, Log ERROR])
               | KillRaises e \<Rightarrow>
                   (Inl e, s1, [Log INFO, Terminate pid, WaitTimeout pid 10, Kill pid])))
      | None \<Rightarrow> (Inr (), s, []))"

section \<open>\<^verbatim>\<open>get_status\<close>\<close>

record snapshot =
  live_status :: json
  live_title :: json
  channel_name :: json
  recording_status :: json
  snapshot_recording_info :: "(string \<times> json) list"
  is_recording :: bool
  process_pid :: "nat option"
  snapshot_last_status :: json
  snapshot_retry_count :: nat
  snapshot_shutdown_flag :: bool

definition get_status :: "response \<Rightarrow> recorder \<Rightarrow> snapshot result" where
  "get_status r s =
     (case get_live_info r of
        (Inl e, a) \<Rightarrow> (Inl e, s, a)
      | (Inr (status, title, name), a) \<Rightarrow>
          (Inr \<lparr>live_status = status,
                live_title = title,
                channel_name = name,
                recording_status =
                  (case map_of (recording_info s) ''status'' of
                     None \<Rightarrow> JStr ''idle'' | Some v \<Rightarrow> v),
                snapshot_recording_info = recording_info s,
                is_recording = (current_recording_process s \<noteq> None),
                process_pid = current_recording_process s,
                snapshot_last_status = last_status s,
                snapshot_retry_count = retry_count s,
                snapshot_shutdown_flag = shutdown_flag s\<rparr>,
           s, a))"

section \<open>Observations used in the statements\<close>

text \<open>The three components of what a method returns.\<close>

abbreviation outcome :: "'a \<times> 'b \<times> 'c \<Rightarrow> 'a" where
  "outcome res \<equiv> fst res"

abbreviation state :: "'a \<times> 'b \<times> 'c \<Rightarrow> 'b" where
  "state res \<equiv> fst (snd res)"

abbreviation calls :: "'a \<times> 'b \<times> 'c \<Rightarrow> 'c" where
  "calls res \<equiv> snd (snd res)"

fun is_Launch :: "action \<Rightarrow> bool" where
  "is_Launch (Launch t c) = True"
| "is_Launch _ = False"

fun is_Sleep :: "action \<Rightarrow> bool" where
  "is_Sleep (Sleep n) = True"
| "is_Sleep _ = False"

definition is_launch_or_sleep :: "action \<Rightarrow> bool" where
  "is_launch_or_sleep a = (is_Launch a \<or> is_Sleep a)"

fun is_process_call :: "action \<Rightarrow> bool" where
  "is_process_call (Terminate p) = True"
| "is_process_call (WaitTimeout p n) = True"
| "is_process_call (Kill p) = True"
| "is_process_call _ = False"

text \<open>The outcome in which \<^verbatim>\<open>kill()\<close> raises.\<close>

fun kill_raises :: "term_outcome \<Rightarrow> bool" where
  "kill_raises (KillRaises e) = True"
| "kill_raises _ = False"

text \<open>The number of calls of \<^verbatim>\<open>run_streamlink\<close> in a sequence of calls.\<close>

definition launch_count :: "action list \<Rightarrow> nat" where
  "launch_count acts = length (filter is_Launch acts)"

text \<open>The status that \<^verbatim>\<open>get_live_info\<close> hands to the loop, and the loop's test on it.\<close>

definition status_of :: "response \<Rightarrow> json" where
  "status_of r =
     (case fst (get_live_info r) of Inr (status, title, name) \<Rightarrow> status | Inl e \<Rightarrow> JNull)"

definition is_live :: "response \<Rightarrow> bool" where
  "is_live r = (status_of r = JStr ''OPEN'')"

text \<open>
  Attempt number \<open>attempt\<close> of \<^verbatim>\<open>run_streamlink\<close> returns \<^verbatim>\<open>None\<close>: the title is
  not a string, or \<^verbatim>\<open>Popen\<close> raises.
\<close>

definition launch_fails :: "poll_env \<Rightarrow> json \<Rightarrow> nat \<Rightarrow> bool" where
  "launch_fails env title attempt =
     (case title of JStr t \<Rightarrow> popen (launches env attempt) = None | _ \<Rightarrow> True)"

text \<open>The first attempt of a poll starts a process.\<close>

definition launch_succeeds :: "poll_env \<Rightarrow> bool" where
  "launch_succeeds env =
     (case fst (get_live_info (reply env)) of
        Inl e \<Rightarrow> False
      | Inr (status, title, name) \<Rightarrow>
          (case title of JStr t \<Rightarrow> popen (launches env 0) \<noteq> None | _ \<Rightarrow> False))"

text \<open>
  \<open>k\<close> launches with a sleep of 5 between two consecutive ones and none after the
  last.
\<close>

fun retry_pattern :: "json \<Rightarrow> json \<Rightarrow> nat \<Rightarrow> action list" where
  "retry_pattern t c 0 = []"
| "retry_pattern t c (Suc k) =
     Launch t c # (if k = 0 then [] else Sleep 5 # retry_pattern t c k)"

text \<open>
  The number of places in a sequence of statuses where \<^verbatim>\<open>'OPEN'\<close> follows another
  status; \<open>prev\<close> is the status before the first one.
\<close>

fun live_edges :: "json \<Rightarrow> json list \<Rightarrow> nat" where
  "live_edges prev [] = 0"
| "live_edges prev (st # sts) =
     (if st = JStr ''OPEN'' \<and> prev \<noteq> JStr ''OPEN'' then 1 else 0) + live_edges st sts"

subsection \<open>Concrete replies and environments\<close>

definition live :: response where
  "live = Reply 200 (Some (JObj [(''code'', JNum 200), (''content'',
     JObj [(''status'', JStr ''OPEN''), (''liveTitle'', JStr ''T1''),
           (''channel'', JObj [(''channelName'', JStr ''Ch1'')])])]))"

definition offline :: response where
  "offline = Reply 200 (Some (JObj [(''code'', JNum 200), (''content'',
     JObj [(''status'', JStr ''CLOSE''), (''liveTitle'', JStr ''T1''),
           (''channel'', JObj [(''channelName'', JStr ''Ch1'')])])]))"

definition launch_ok :: "nat \<Rightarrow> launch_env" where
  "launch_ok attempt = \<lparr>output_file = ''rec.mp4'', start_time = ''t0'', popen = Some 100\<rparr>"

definition launch_refused :: "nat \<Rightarrow> launch_env" where
  "launch_refused attempt = \<lparr>output_file = ''rec.mp4'', start_time = ''t0'', popen = None\<rparr>"

text \<open>A poll in which the monitor thread starts and the process, if any, keeps running.\<close>

definition poll :: "(nat \<Rightarrow> launch_env) \<Rightarrow> response \<Rightarrow> poll_env" where
  "poll l r = \<lparr>reply = r, launches = l, thread_starts = True, has_exited = False\<rparr>"

section \<open>Properties of \<^verbatim>\<open>get_live_info\<close>\<close>

lemma live_info_body_exn:
  "fst (live_info_body r) = Inl e \<Longrightarrow> is_RequestException e \<or> is_Exception e"
  by (cases r)
     (auto simp: live_info_body_def fetch_json_def
           split: sum.splits if_splits option.splits json.splits
           elim!: py_get.elims)

lemma get_live_info_failed:
  assumes "query_failed r"
  shows "fst (get_live_info r) = Inr none3"
proof -
  from assms obtain e acts where b: "live_info_body r = (Inl e, acts)"
    by (cases "live_info_body r") (auto simp: query_failed_def split: sum.splits)
  then have "is_RequestException e \<or> is_Exception e"
    using live_info_body_exn [of r e] by simp
  with b show ?thesis
    by (auto simp: get_live_info_def)
qed

lemma get_live_info_no_content:
  assumes "no_content r"
  shows "fst (get_live_info r) = Inr none3"
  using assms
  by (auto simp: no_content_def get_live_info_def live_info_body_def
           split: sum.splits)

lemma get_live_info_returns: "\<exists>info. fst (get_live_info r) = Inr info"
proof (cases "live_info_body r")
  case (Pair res acts)
  show ?thesis
  proof (cases res)
    case (Inl e)
    with Pair have "is_RequestException e \<or> is_Exception e"
      using live_info_body_exn [of r e] by simp
    with Pair Inl have "fst (get_live_info r) = Inr none3"
      by (auto simp: get_live_info_def)
    then show ?thesis ..
  next
    case (Inr info)
    with Pair have "fst (get_live_info r) = Inr info"
      by (simp add: get_live_info_def)
    then show ?thesis ..
  qed
qed

section \<open>Lemmas about the methods\<close>

text \<open>
  What each method leaves unchanged, what one iteration of the loop of the class does on
  an offline poll, on a poll that is still live and on a live edge, which exceptions an
  iteration can raise, and how the loop runs through a sequence of polls.
\<close>

lemma launch_count_simps [simp]:
  "launch_count [] = 0"
  "launch_count (a # as) = (if is_Launch a then Suc (launch_count as) else launch_count as)"
  "launch_count (xs @ ys) = launch_count xs + launch_count ys"
  by (simp_all add: launch_count_def)

lemma get_live_info_cases:
  obtains status title name a0 where "get_live_info r = (Inr (status, title, name), a0)"
    and "launch_count a0 = 0" and "status_of r = status"
proof -
  obtain info where i: "fst (get_live_info r) = Inr info"
    using get_live_info_returns by blast
  obtain status title name where info: "info = (status, title, name)"
    by (cases info)
  have l: "launch_count (snd (get_live_info r)) = 0"
    by (auto simp: get_live_info_def live_info_body_def split: sum.splits prod.splits if_splits)
  show thesis
    using that [of status title name "snd (get_live_info r)"] i info l
    by (cases "get_live_info r") (simp add: status_of_def)
qed


lemma run_streamlink_frame:
  "run_streamlink cfg e t c s = (r, s1, a) \<Longrightarrow>
     last_status s1 = last_status s \<and> retry_count s1 = retry_count s
     \<and> shutdown_flag s1 = shutdown_flag s \<and> launch_count a = 1"
  by (auto simp: run_streamlink_def Let_def split: json.splits option.splits if_splits)

lemma launch_loop_frame:
  "launch_loop cfg env t c is s = (r, s1, a) \<Longrightarrow>
     last_status s1 = last_status s \<and> retry_count s1 = retry_count s
     \<and> shutdown_flag s1 = shutdown_flag s"
proof (induction "is" arbitrary: s r s1 a)
  case Nil
  then show ?case by simp
next
  case (Cons i "is")
  obtain r0 s0 a0 where rs: "run_streamlink cfg (launches env i) t c s = (r0, s0, a0)"
    by (cases "run_streamlink cfg (launches env i) t c s")
  note f = run_streamlink_frame [OF rs]
  show ?case
  proof (cases r0)
    case None
    obtain r2 s2 a2 where ll: "launch_loop cfg env t c is s0 = (r2, s2, a2)"
      by (cases "launch_loop cfg env t c is s0")
    from Cons.IH [OF ll] f Cons.prems rs None ll show ?thesis
      by simp
  next
    case (Some pid)
    with Cons.prems rs f show ?thesis
      by (auto split: if_splits)
  qed
qed

lemma handle_live_start_frame:
  "handle_live_start cfg env t c s = (r, s1, a) \<Longrightarrow>
     last_status s1 = last_status s \<and> retry_count s1 = retry_count s
     \<and> shutdown_flag s1 = shutdown_flag s"
  by (auto simp: handle_live_start_def split: prod.splits dest: launch_loop_frame)

lemma handle_live_end_frame:
  "handle_live_end s = (s1, a) \<Longrightarrow>
     last_status s1 = last_status s \<and> retry_count s1 = retry_count s
     \<and> shutdown_flag s1 = shutdown_flag s \<and> launch_count a = 0
     \<and> current_recording_process s1 = None"
  by (auto simp: handle_live_end_def split: option.splits)

lemma check_recording_status_frame:
  "check_recording_status env s = (s1, a) \<Longrightarrow>
     last_status s1 = last_status s \<and> retry_count s1 = retry_count s
     \<and> shutdown_flag s1 = shutdown_flag s \<and> launch_count a = 0"
  by (auto simp: check_recording_status_def split: option.splits if_splits)

lemma poll_body_not_live:
  assumes "\<not> is_live (reply env)"
  shows "launch_count (calls (poll_body cfg env s)) = 0"
    and "0 \<le> check_interval cfg \<Longrightarrow>
           outcome (poll_body cfg env s) = Inr ()
           \<and> last_status (state (poll_body cfg env s)) = status_of (reply env)
           \<and> retry_count (state (poll_body cfg env s)) = 0
           \<and> shutdown_flag (state (poll_body cfg env s)) = shutdown_flag s
           \<and> (last_status s = JStr ''OPEN'' \<longrightarrow> current_recording_process (state (poll_body cfg env s)) = None)"
proof -
  obtain status title name a0 where g: "get_live_info (reply env) = (Inr (status, title, name), a0)"
    and l: "launch_count a0 = 0" and st: "status_of (reply env) = status"
    by (rule get_live_info_cases)
  from assms st have ns: "status \<noteq> JStr ''OPEN''" by (simp add: is_live_def)
  obtain s1 a1 where e: "handle_live_end s = (s1, a1)" by (cases "handle_live_end s")
  note f = handle_live_end_frame [OF e]
  from g l ns e f show "launch_count (calls (poll_body cfg env s)) = 0"
    by (simp add: poll_body_def)
  assume "0 \<le> check_interval cfg"
  with g l ns e f st show "outcome (poll_body cfg env s) = Inr ()
           \<and> last_status (state (poll_body cfg env s)) = status_of (reply env)
           \<and> retry_count (state (poll_body cfg env s)) = 0
           \<and> shutdown_flag (state (poll_body cfg env s)) = shutdown_flag s
           \<and> (last_status s = JStr ''OPEN'' \<longrightarrow> current_recording_process (state (poll_body cfg env s)) = None)"
    by (simp add: poll_body_def)
qed

lemma poll_body_still_live:
  assumes "is_live (reply env)" "last_status s = JStr ''OPEN''"
  shows "launch_count (calls (poll_body cfg env s)) = 0"
    and "outcome (poll_body cfg env s) = Inr ()"
    and "last_status (state (poll_body cfg env s)) = JStr ''OPEN''"
    and "retry_count (state (poll_body cfg env s)) = 0"
proof -
  obtain status title name a0 where g: "get_live_info (reply env) = (Inr (status, title, name), a0)"
    and l: "launch_count a0 = 0" and st: "status_of (reply env) = status"
    by (rule get_live_info_cases)
  from assms st have ns: "status = JStr ''OPEN''" by (simp add: is_live_def)
  obtain s1 a1 where e: "check_recording_status env s = (s1, a1)" by (cases "check_recording_status env s")
  note f = check_recording_status_frame [OF e]
  from g l ns e f assms show "launch_count (calls (poll_body cfg env s)) = 0"
    and "outcome (poll_body cfg env s) = Inr ()"
    and "last_status (state (poll_body cfg env s)) = JStr ''OPEN''"
    and "retry_count (state (poll_body cfg env s)) = 0"
    by (simp_all add: poll_body_def)
qed

lemma poll_body_launch_only_on_edge:
  assumes "0 < launch_count (calls (poll_body cfg env s))"
  shows "is_live (reply env) \<and> last_status s \<noteq> JStr ''OPEN''"
  using assms poll_body_not_live(1) [of env cfg s] poll_body_still_live(1) [of env s cfg]
  by fastforce

lemma poll_body_completes:
  assumes "outcome (poll_body cfg env s) = Inr ()"
  shows "retry_count (state (poll_body cfg env s)) = 0"
    and "last_status (state (poll_body cfg env s)) = status_of (reply env)"
proof -
  obtain status title name a0 where g: "get_live_info (reply env) = (Inr (status, title, name), a0)"
    and l: "launch_count a0 = 0" and st: "status_of (reply env) = status"
    by (rule get_live_info_cases)
  from assms g st show "retry_count (state (poll_body cfg env s)) = 0"
    and "last_status (state (poll_body cfg env s)) = status_of (reply env)"
    by (auto simp: poll_body_def split: if_splits prod.splits sum.splits)
qed

lemma launch_loop_exn:
  "launch_loop cfg env t c is s = (Inl e, s1, a) \<Longrightarrow> e = RuntimeError \<and> \<not> thread_starts env"
proof (induction "is" arbitrary: s s1 a)
  case Nil
  then show ?case by simp
next
  case (Cons i "is")
  then show ?case
    by (auto split: prod.splits option.splits if_splits)
qed

lemma handle_live_start_exn:
  "handle_live_start cfg env t c s = (Inl e, s1, a) \<Longrightarrow> e = RuntimeError \<and> \<not> thread_starts env"
  by (auto simp: handle_live_start_def split: prod.splits dest: launch_loop_exn)

lemma poll_body_raises:
  assumes "outcome (poll_body cfg env s) = Inl e"
  shows "retry_count (state (poll_body cfg env s)) = retry_count s"
    and "last_status (state (poll_body cfg env s)) = last_status s"
    and "shutdown_flag (state (poll_body cfg env s)) = shutdown_flag s"
    and "is_Exception e"
    and "e = RuntimeError \<and> \<not> thread_starts env \<and> is_live (reply env) \<or> e = ValueError \<and> check_interval cfg < 0 \<and> \<not> is_live (reply env)"
proof -
  obtain status title name a0 where g: "get_live_info (reply env) = (Inr (status, title, name), a0)"
    and l: "launch_count a0 = 0" and st: "status_of (reply env) = status"
    by (rule get_live_info_cases)
  obtain r1 s1 a1 where h: "handle_live_start cfg env title name s = (r1, s1, a1)"
    by (cases "handle_live_start cfg env title name s")
  note f = handle_live_start_frame [OF h]
  obtain s2 a2 where e: "handle_live_end s = (s2, a2)" by (cases "handle_live_end s")
  note f2 = handle_live_end_frame [OF e]
  from assms g h f e f2 show "retry_count (state (poll_body cfg env s)) = retry_count s"
    and "last_status (state (poll_body cfg env s)) = last_status s"
    and "shutdown_flag (state (poll_body cfg env s)) = shutdown_flag s"
    by (auto simp: poll_body_def split: if_splits prod.splits sum.splits)
  from assms g h e st handle_live_start_exn [of cfg env title name s _ s1 a1]
  show x: "e = RuntimeError \<and> \<not> thread_starts env \<and> is_live (reply env) \<or> e = ValueError \<and> check_interval cfg < 0 \<and> \<not> is_live (reply env)"
    by (auto simp: poll_body_def is_live_def split: if_splits prod.splits sum.splits)
  then show "is_Exception e" by auto
qed

lemma poll_body_shutdown_flag:
  "shutdown_flag (state (poll_body cfg env s)) = shutdown_flag s"
proof (cases "outcome (poll_body cfg env s)")
  case (Inl e)
  then show ?thesis by (rule poll_body_raises(3))
next
  case (Inr u)
  obtain status title name a0 where g: "get_live_info (reply env) = (Inr (status, title, name), a0)"
    by (rule get_live_info_cases)
  obtain r1 s1 a1 where h: "handle_live_start cfg env title name s = (r1, s1, a1)"
    by (cases "handle_live_start cfg env title name s")
  note f = handle_live_start_frame [OF h]
  obtain s2 a2 where e: "handle_live_end s = (s2, a2)" by (cases "handle_live_end s")
  note f2 = handle_live_end_frame [OF e]
  obtain s3 a3 where c: "check_recording_status env s = (s3, a3)" by (cases "check_recording_status env s")
  note f3 = check_recording_status_frame [OF c]
  obtain s4 a4 where c4: "check_recording_status env s1 = (s4, a4)" by (cases "check_recording_status env s1")
  note f4 = check_recording_status_frame [OF c4]
  from g h f e f2 c f3 c4 f4 show ?thesis
    by (auto simp: poll_body_def split: if_splits prod.splits sum.splits)
qed

lemma handle_errors_ok:
  "outcome res = Inr () \<Longrightarrow> handle_errors res = (Inr Continue, state res, calls res)"
  by (cases res) (auto simp: handle_errors_def)


lemma get_live_info_quiet:
  "filter is_launch_or_sleep (snd (get_live_info r)) = []"
  by (auto simp: get_live_info_def live_info_body_def is_launch_or_sleep_def
           split: sum.splits prod.splits if_splits)

lemma run_streamlink_fails:
  assumes "launch_fails env title i"
  shows "fst (run_streamlink cfg (launches env i) title cn s) = None"
    and "filter is_launch_or_sleep (calls (run_streamlink cfg (launches env i) title cn s)) = [Launch title cn]"
    and "current_recording_process (state (run_streamlink cfg (launches env i) title cn s)) = None"
  using assms
  by (auto simp: run_streamlink_def launch_fails_def is_launch_or_sleep_def Let_def split: json.splits)

lemma launch_loop_all_fail:
  assumes "\<forall>i. launch_fails env title i" and "n = nat (retry_count_max cfg)"
  shows "outcome (launch_loop cfg env title cn [i..<n] s) = Inr ()
       \<and> filter is_launch_or_sleep (calls (launch_loop cfg env title cn [i..<n] s)) = retry_pattern title cn (n - i)
       \<and> (i < n \<longrightarrow> current_recording_process (state (launch_loop cfg env title cn [i..<n] s)) = None)"
proof (induction "n - i" arbitrary: i s)
  case 0
  then show ?case by simp
next
  case (Suc k)
  then have lt: "i < n" and k: "k = n - Suc i" by simp_all
  from lt have unfold: "[i..<n] = i # [Suc i..<n]" by (rule upt_conv_Cons)
  obtain r0 s0 a0 where rs: "run_streamlink cfg (launches env i) title cn s = (r0, s0, a0)"
    by (cases "run_streamlink cfg (launches env i) title cn s")
  from assms(1) have lf: "launch_fails env title i" by simp
  from run_streamlink_fails [OF lf, of cfg cn s] rs
  have r0: "r0 = None" and a0: "filter is_launch_or_sleep a0 = [Launch title cn]"
    and c0: "current_recording_process s0 = None"
    by simp_all
  obtain r2 s2 a2 where ll: "launch_loop cfg env title cn [Suc i..<n] s0 = (r2, s2, a2)"
    by (cases "launch_loop cfg env title cn [Suc i..<n] s0")
  from Suc.hyps(1) [OF k, of s0] ll
  have ih: "r2 = Inr ()" "filter is_launch_or_sleep a2 = retry_pattern title cn (n - Suc i)"
    "Suc i < n \<longrightarrow> current_recording_process s2 = None"
    by simp_all
  have sl: "(int i < retry_count_max cfg - 1) = (n - Suc i \<noteq> 0)"
    using lt assms(2) by auto
  have last: "\<not> Suc i < n \<Longrightarrow> s2 = s0"
    using ll by simp
  have ni: "n - i = Suc (n - Suc i)" using lt by simp
  from rs r0 a0 ll ih sl c0 last show ?case
    unfolding unfold ni
    by (auto simp: is_launch_or_sleep_def)
qed

lemma handle_live_start_all_fail:
  assumes "\<forall>i. launch_fails env title i"
  shows "outcome (handle_live_start cfg env title cn s) = Inr ()"
    and "filter is_launch_or_sleep (calls (handle_live_start cfg env title cn s))
           = retry_pattern title cn (nat (retry_count_max cfg))"
    and "0 < retry_count_max cfg \<Longrightarrow> current_recording_process (state (handle_live_start cfg env title cn s)) = None"
  using launch_loop_all_fail [OF assms refl, of cfg cn 0 s]
  by (auto simp: handle_live_start_def is_launch_or_sleep_def split: prod.splits)

lemma retry_pattern_count: "launch_count (retry_pattern t c n) = n"
  by (induction n) auto

lemma retry_pattern_sleeps: "length (filter is_Sleep (retry_pattern t c n)) = n - 1"
  by (induction n) auto

lemma poll_loop_Cons_ok:
  assumes "\<not> shutdown_flag s" "outcome (body env s) = Inr ()"
  shows "poll_loop body (env # rest) s =
           (outcome (poll_loop body rest (state (body env s))),
            state (poll_loop body rest (state (body env s))),
            calls (body env s) @ calls (poll_loop body rest (state (body env s))))"
  using assms handle_errors_ok [of "body env s"]
  by (simp split: prod.splits)

lemma poll_loop_all_live:
  assumes "\<forall>env\<in>set envs. is_live (reply env)" "last_status s = JStr ''OPEN''" "\<not> shutdown_flag s"
  shows "outcome (poll_loop (poll_body cfg) envs s) = Polling
       \<and> launch_count (calls (poll_loop (poll_body cfg) envs s)) = 0
       \<and> last_status (state (poll_loop (poll_body cfg) envs s)) = JStr ''OPEN''"
  using assms
proof (induction envs arbitrary: s)
  case Nil
  then show ?case by simp
next
  case (Cons env envs)
  from Cons.prems have l: "is_live (reply env)" by simp
  note b = poll_body_still_live [OF l Cons.prems(2), of cfg]
  have f: "\<not> shutdown_flag (state (poll_body cfg env s))"
    using Cons.prems(3) by (simp add: poll_body_shutdown_flag)
  have "\<forall>env\<in>set envs. is_live (reply env)" using Cons.prems(1) by simp
  note ih = Cons.IH [OF this b(3) f]
  show ?case
    unfolding poll_loop_Cons_ok [where body="poll_body cfg" and env=env and s=s, OF Cons.prems(3) b(2)]
    using ih b(1) by simp
qed



lemma launch_loop_launches:
  "1 \<le> launch_count (calls (launch_loop cfg env t c (i # is) s))"
proof -
  obtain r0 s0 a0 where rs: "run_streamlink cfg (launches env i) t c s = (r0, s0, a0)"
    by (cases "run_streamlink cfg (launches env i) t c s")
  from run_streamlink_frame [OF rs] have "launch_count a0 = 1" by simp
  with rs show ?thesis
    by (auto split: option.splits prod.splits)
qed

lemma handle_live_start_launches:
  assumes "0 < retry_count_max cfg"
  shows "1 \<le> launch_count (calls (handle_live_start cfg env t c s))"
proof -
  from assms have "0 < nat (retry_count_max cfg)" by simp
  then have u: "[0..<nat (retry_count_max cfg)] = 0 # [Suc 0..<nat (retry_count_max cfg)]"
    by (rule upt_conv_Cons)
  obtain r s1 a where ll: "launch_loop cfg env t c (0 # [Suc 0..<nat (retry_count_max cfg)]) s = (r, s1, a)"
    by (cases "launch_loop cfg env t c (0 # [Suc 0..<nat (retry_count_max cfg)]) s")
  from launch_loop_launches [of cfg env t c 0 "[Suc 0..<nat (retry_count_max cfg)]" s] ll
  have "1 \<le> launch_count a" by simp
  with ll show ?thesis
    unfolding handle_live_start_def u by simp
qed

lemma poll_body_live_edge:
  assumes "is_live (reply env)" "last_status s \<noteq> JStr ''OPEN''"
  shows "0 < retry_count_max cfg \<Longrightarrow> 1 \<le> launch_count (calls (poll_body cfg env s))"
    and "thread_starts env \<Longrightarrow> outcome (poll_body cfg env s) = Inr ()"
proof -
  obtain status title name a0 where g: "get_live_info (reply env) = (Inr (status, title, name), a0)"
    and l: "launch_count a0 = 0" and st: "status_of (reply env) = status"
    by (rule get_live_info_cases)
  from assms st have ns: "status = JStr ''OPEN''" by (simp add: is_live_def)
  obtain r1 s1 a1 where h: "handle_live_start cfg env title name s = (r1, s1, a1)"
    by (cases "handle_live_start cfg env title name s")
  show "1 \<le> launch_count (calls (poll_body cfg env s))" if "0 < retry_count_max cfg"
    using handle_live_start_launches [OF that, of env title name s] g ns h assms(2)
    by (auto simp: poll_body_def split: sum.splits prod.splits)
  show "outcome (poll_body cfg env s) = Inr ()" if "thread_starts env"
    using handle_live_start_exn [of cfg env title name s _ s1 a1] g ns h assms(2) that
    by (auto simp: poll_body_def split: sum.splits prod.splits)
qed


lemma callisto_live_poll_raises:
  assumes "is_live (reply env)"
  shows "\<exists>e. outcome (callisto_poll_body cfg env s) = Inl e \<and> is_Exception e"
    and "last_status (state (callisto_poll_body cfg env s)) = last_status s"
proof -
  obtain status title name a0 where g: "get_live_info (reply env) = (Inr (status, title, name), a0)"
    and st: "status_of (reply env) = status"
    by (rule get_live_info_cases)
  from assms st have ns: "status = JStr ''OPEN''" by (simp add: is_live_def)
  obtain r1 s1 a1 where h: "handle_live_start (cfg\<lparr>keeps_info := False\<rparr>) env title name s = (r1, s1, a1)"
    by (cases "handle_live_start (cfg\<lparr>keeps_info := False\<rparr>) env title name s")
  note f = handle_live_start_frame [OF h]
  have x: "r1 = Inl e \<Longrightarrow> e = RuntimeError" for e
    using handle_live_start_exn [of "cfg\<lparr>keeps_info := False\<rparr>" env title name s e s1 a1] h by simp
  show "\<exists>e. outcome (callisto_poll_body cfg env s) = Inl e \<and> is_Exception e"
    using g ns h x by (cases r1) (auto simp: callisto_poll_body_def)
  show "last_status (state (callisto_poll_body cfg env s)) = last_status s"
    using g ns h f by (cases r1) (auto simp: callisto_poll_body_def)
qed

lemma poll_body_edge_success:
  assumes "is_live (reply env)" "last_status s \<noteq> JStr ''OPEN''" "launch_succeeds env"
    "thread_starts env" "0 < retry_count_max cfg"
  shows "launch_count (calls (poll_body cfg env s)) = 1"
proof -
  obtain status title name a0 where g: "get_live_info (reply env) = (Inr (status, title, name), a0)"
    and l: "launch_count a0 = 0" and st: "status_of (reply env) = status"
    by (rule get_live_info_cases)
  from assms st have ns: "status = JStr ''OPEN''" by (simp add: is_live_def)
  from assms(3) g obtain t pid where t: "title = JStr t" and p: "popen (launches env 0) = Some pid"
    by (auto simp: launch_succeeds_def split: json.splits)
  from assms(5) have "0 < nat (retry_count_max cfg)" by simp
  then have u: "[0..<nat (retry_count_max cfg)] = 0 # [Suc 0..<nat (retry_count_max cfg)]"
    by (rule upt_conv_Cons)
  have h: "launch_count (calls (handle_live_start cfg env title name s)) = 1"
    and o: "outcome (handle_live_start cfg env title name s) = Inr ()"
    unfolding handle_live_start_def u
    using t p assms(4) by (simp_all add: run_streamlink_def Let_def)
  obtain r1 s1 a1 where hl: "handle_live_start cfg env title name s = (r1, s1, a1)"
    by (cases "handle_live_start cfg env title name s")
  obtain s2 a2 where c: "check_recording_status env s1 = (s2, a2)"
    by (cases "check_recording_status env s1")
  note f = check_recording_status_frame [OF c]
  from g l ns hl h o c f assms(2) show ?thesis
    by (simp add: poll_body_def)
qed

lemma poll_loop_launches_on_edges:
  assumes "\<forall>env\<in>set envs. thread_starts env \<and> (is_live (reply env) \<longrightarrow> launch_succeeds env)"
    and "0 \<le> check_interval cfg" and "0 < retry_count_max cfg" and "\<not> shutdown_flag s"
  shows "outcome (poll_loop (poll_body cfg) envs s) = Polling
       \<and> launch_count (calls (poll_loop (poll_body cfg) envs s))
           = live_edges (last_status s) (map (\<lambda>env. status_of (reply env)) envs)"
  using assms(1,4)
proof (induction envs arbitrary: s)
  case Nil
  then show ?case by simp
next
  case (Cons env envs)
  from Cons.prems have ts: "thread_starts env" and ls: "is_live (reply env) \<Longrightarrow> launch_succeeds env"
    and rest: "\<forall>env\<in>set envs. thread_starts env \<and> (is_live (reply env) \<longrightarrow> launch_succeeds env)"
    by simp_all
  have o: "outcome (poll_body cfg env s) = Inr ()"
  proof (cases "is_live (reply env)")
    case True
    show ?thesis
    proof (cases "last_status s = JStr ''OPEN''")
      case True
      with \<open>is_live (reply env)\<close> show ?thesis using poll_body_still_live(2) by blast
    next
      case False
      with \<open>is_live (reply env)\<close> ts show ?thesis using poll_body_live_edge(2) by blast
    qed
  next
    case False
    then show ?thesis using poll_body_not_live(2) [OF False assms(2)] by blast
  qed
  have n: "launch_count (calls (poll_body cfg env s))
         = (if status_of (reply env) = JStr ''OPEN'' \<and> last_status s \<noteq> JStr ''OPEN'' then 1 else 0)"
  proof (cases "is_live (reply env)")
    case True
    show ?thesis
    proof (cases "last_status s = JStr ''OPEN''")
      case True
      with \<open>is_live (reply env)\<close> show ?thesis
        using poll_body_still_live(1) [of env s cfg] by simp
    next
      case False
      with \<open>is_live (reply env)\<close> ts ls assms(3) show ?thesis
        using poll_body_edge_success [of env s cfg] by (simp add: is_live_def)
    qed
  next
    case False
    then show ?thesis using poll_body_not_live(1) [OF False, of cfg s] by (simp add: is_live_def)
  qed
  have f: "\<not> shutdown_flag (state (poll_body cfg env s))"
    using Cons.prems(2) by (simp add: poll_body_shutdown_flag)
  note ih = Cons.IH [OF rest f]
  show ?case
    unfolding poll_loop_Cons_ok [where body="poll_body cfg" and env=env and s=s, OF Cons.prems(2) o]
    using ih n poll_body_completes(2) [OF o] by simp
qed


lemma launch_loop_warnings:
  assumes "\<forall>i. launch_fails env title i"
  shows "length (filter (\<lambda>a. a = Log WARNING) (calls (launch_loop cfg env title cn is s)))
           = length is"
proof (induction "is" arbitrary: s)
  case Nil
  then show ?case by simp
next
  case (Cons i "is")
  obtain r0 s0 a0 where rs: "run_streamlink cfg (launches env i) title cn s = (r0, s0, a0)"
    by (cases "run_streamlink cfg (launches env i) title cn s")
  from assms have lf: "launch_fails env title i" by simp
  from run_streamlink_fails(1) [OF lf, of cfg cn s] rs have r0: "r0 = None" by simp
  have a0: "filter (\<lambda>a. a = Log WARNING) a0 = []"
    using rs by (auto simp: run_streamlink_def Let_def split: json.splits option.splits if_splits)
  obtain r2 s2 a2 where ll: "launch_loop cfg env title cn is s0 = (r2, s2, a2)"
    by (cases "launch_loop cfg env title cn is s0")
  from Cons.IH [of s0] ll have "length (filter (\<lambda>a. a = Log WARNING) a2) = length is"
    by simp
  with rs r0 a0 ll show ?case
    by simp
qed

lemma handle_live_start_warnings:
  assumes "\<forall>i. launch_fails env title i"
  shows "length (filter (\<lambda>a. a = Log WARNING) (calls (handle_live_start cfg env title cn s)))
           = nat (retry_count_max cfg)"
  using launch_loop_warnings [OF assms, of cfg cn "[0..<nat (retry_count_max cfg)]" s]
  by (cases "launch_loop cfg env title cn [0..<nat (retry_count_max cfg)] s")
     (simp add: handle_live_start_def)

lemma poll_body_launches_exhausted:
  assumes "\<forall>i. launch_fails env title i"
    and "get_live_info (reply env) = (Inr (JStr ''OPEN'', title, cn), a0)"
    and "last_status s \<noteq> JStr ''OPEN''"
  shows "outcome (poll_body cfg env s) = Inr ()
     \<and> filter is_launch_or_sleep (calls (handle_live_start cfg env title cn s))
           = retry_pattern title cn (nat (retry_count_max cfg))
     \<and> launch_count (calls (poll_body cfg env s)) = nat (retry_count_max cfg)
     \<and> filter is_launch_or_sleep (calls (poll_body cfg env s))
           = retry_pattern title cn (nat (retry_count_max cfg)) @ [Sleep 10]
     \<and> handle_errors (poll_body cfg env s)
           = (Inr Continue, state (poll_body cfg env s), calls (poll_body cfg env s))
     \<and> last_status (state (poll_body cfg env s)) = JStr ''OPEN''
     \<and> (0 < retry_count_max cfg \<longrightarrow> current_recording_process (state (poll_body cfg env s)) = None)
     \<and> (is_live (reply env') \<longrightarrow>
          launch_count (calls (poll_body cfg env' (state (poll_body cfg env s)))) = 0
          \<and> last_status (state (poll_body cfg env' (state (poll_body cfg env s)))) = JStr ''OPEN'')"
proof -
  note h = handle_live_start_all_fail [OF assms(1), of cfg cn s]
  obtain r1 s1 a1 where hl: "handle_live_start cfg env title cn s = (r1, s1, a1)"
    by (cases "handle_live_start cfg env title cn s")
  with h have r1: "r1 = Inr ()"
    and a1: "filter is_launch_or_sleep a1 = retry_pattern title cn (nat (retry_count_max cfg))"
    and c1: "0 < retry_count_max cfg \<Longrightarrow> current_recording_process s1 = None"
    by simp_all
  obtain s2 a2 where cr: "check_recording_status env s1 = (s2, a2)"
    by (cases "check_recording_status env s1")
  have a2: "filter is_launch_or_sleep a2 = []"
    and c2: "current_recording_process s1 = None \<Longrightarrow> current_recording_process s2 = None"
    using cr by (auto simp: check_recording_status_def is_launch_or_sleep_def split: option.splits if_splits)
  have q0: "filter is_launch_or_sleep a0 = []"
    using get_live_info_quiet [of "reply env"] assms(2) by simp
  have pb: "poll_body cfg env s = (Inr (), s2\<lparr>last_status := JStr ''OPEN'', retry_count := 0\<rparr>, a0 @ a1 @ a2 @ [Sleep 10])"
    using assms(2,3) hl r1 cr by (simp add: poll_body_def)
  have lc: "launch_count xs = launch_count (filter is_launch_or_sleep xs)" for xs
    by (induction xs) (auto simp: is_launch_or_sleep_def)
  have n: "launch_count (calls (poll_body cfg env s)) = nat (retry_count_max cfg)"
    unfolding lc [of "calls (poll_body cfg env s)"]
    using pb q0 a1 a2 by (simp add: is_launch_or_sleep_def retry_pattern_count)
  have st: "last_status (state (poll_body cfg env s)) = JStr ''OPEN''"
    using pb by simp
  show ?thesis
    using h(2) n pb q0 a1 a2 c1 c2 st
      poll_body_still_live(1,3) [of env' "state (poll_body cfg env s)" cfg]
    by (simp add: handle_errors_def is_launch_or_sleep_def)
qed

section \<open>The poll loop of the class: launches and live edges\<close>

text \<open>
  In \<^verbatim>\<open>ChzzkRecorder.check_stream\<close> (\<^verbatim>\<open>chzzk-recorder.py\<close>, \<^verbatim>\<open>hosting.py\<close>) a poll
  launches only if its status is \<^verbatim>\<open>'OPEN'\<close> and \<^verbatim>\<open>last_status\<close> is not
  (\<open>poll_body_launch_only_on_edge\<close>); when no poll raises and the first launch attempt
  succeeds, the number of launches is the number of live edges
  (\<open>poll_loop_launches_on_edges\<close>). The two scenarios of the specification, run on the
  class:
\<close>

lemma check_stream_scenario_A:
  "launch_count (calls (check_stream (default_config web)
     (map (poll launch_ok) [offline, offline, live, live, offline]) init)) = 1"
  by (cases web) (simp_all, code_simp+)

lemma check_stream_scenario_B:
  "retry_count (state (check_stream (default_config web)
     (map (poll launch_ok) [live, RequestFailed, RequestFailed, RequestFailed, live]) init)) = 0
   \<and> outcome (check_stream (default_config web)
     (map (poll launch_ok) [live, RequestFailed, RequestFailed, RequestFailed, live]) init) = Polling"
  by (cases web) (simp_all, code_simp+)

section \<open>The claims\<close>

text \<open>
  C1, on \<^verbatim>\<open>check_stream\<close> of \<^verbatim>\<open>callisto.py\<close>. For the polls Offline, Offline,
  Live, Live, Offline with a launcher that always succeeds, the script launches twice.
  Each live poll raises \<^verbatim>\<open>UnboundLocalError\<close> on line 219, after the launch and before
  \<^verbatim>\<open>last_status = status\<close> (\<open>callisto_live_poll_raises\<close>), so the second live poll
  still sees the offline status of the poll before the first one and launches again.
  The class does launch once (\<open>check_stream_scenario_A\<close>).
\<close>

theorem callisto_scenario_A_launches_twice:
  "launch_count (calls (callisto_check_stream (default_config False)
     (map (poll launch_ok) [offline, offline, live, live, offline]) init)) = 2"
  by code_simp




text \<open>
  C3, as the code has it. On a live edge where every launch attempt fails,
  \<^verbatim>\<open>handle_live_start\<close> calls \<^verbatim>\<open>run_streamlink\<close> \<^verbatim>\<open>retry_count_max\<close> times (not at
  all when that number is not positive), sleeps 5 between two consecutive attempts and
  not after the last, and returns; the iteration completes with \<^verbatim>\<open>last_status =
  'OPEN'\<close> and no current process; the loop goes on polling, and through any number of
  further live polls no launch is attempted. Each failed attempt is logged with a
  warning.
\<close>

theorem launch_retry_exhausted:
  assumes "\<forall>i. launch_fails env title i"
    and "get_live_info (reply env) = (Inr (JStr ''OPEN'', title, cn), a0)"
    and "last_status s \<noteq> JStr ''OPEN''"
  shows "filter is_launch_or_sleep (calls (handle_live_start cfg env title cn s))
           = retry_pattern title cn (nat (retry_count_max cfg))
     \<and> length (filter (\<lambda>a. a = Log WARNING) (calls (handle_live_start cfg env title cn s)))
           = nat (retry_count_max cfg)
     \<and> launch_count (calls (poll_body cfg env s)) = nat (retry_count_max cfg)
     \<and> filter is_launch_or_sleep (calls (poll_body cfg env s))
           = retry_pattern title cn (nat (retry_count_max cfg)) @ [Sleep 10]
     \<and> handle_errors (poll_body cfg env s)
           = (Inr Continue, state (poll_body cfg env s), calls (poll_body cfg env s))
     \<and> last_status (state (poll_body cfg env s)) = JStr ''OPEN''
     \<and> (0 < retry_count_max cfg \<longrightarrow> current_recording_process (state (poll_body cfg env s)) = None)
     \<and> ((\<forall>e\<in>set envs. is_live (reply e)) \<and> \<not> shutdown_flag s \<longrightarrow>
          outcome (poll_loop (poll_body cfg) (env # envs) s) = Polling
          \<and> launch_count (calls (poll_loop (poll_body cfg) (env # envs) s))
              = nat (retry_count_max cfg))"
proof -
  note p = poll_body_launches_exhausted [OF assms, of cfg]
  have o: "outcome (poll_body cfg env s) = Inr ()"
    using p by simp
  have "outcome (poll_loop (poll_body cfg) (env # envs) s) = Polling
          \<and> launch_count (calls (poll_loop (poll_body cfg) (env # envs) s))
              = nat (retry_count_max cfg)"
    if l: "\<forall>e\<in>set envs. is_live (reply e)" and f: "\<not> shutdown_flag s"
  proof -
    have f': "\<not> shutdown_flag (state (poll_body cfg env s))"
      using f by (simp add: poll_body_shutdown_flag)
    have ls: "last_status (state (poll_body cfg env s)) = JStr ''OPEN''"
      using p by simp
    note a = poll_loop_all_live [OF l ls f', of cfg]
    show ?thesis
      unfolding poll_loop_Cons_ok [where body = "poll_body cfg" and env = env and s = s, OF f o]
      using a p by simp
  qed
  with p handle_live_start_warnings [OF assms(1), of cfg cn s] show ?thesis
    by blast
qed

text \<open>
  The theorem at a concrete input: a live poll after an offline one, three refused
  launches, then two more live polls.
\<close>

theorem launch_retry_exhausted_witness:
  "launch_fails (poll launch_refused live) (JStr ''T1'') 0
   \<and> launch_fails (poll launch_refused live) (JStr ''T1'') 1
   \<and> launch_fails (poll launch_refused live) (JStr ''T1'') 2
   \<and> get_live_info (reply (poll launch_refused live))
        = (Inr (JStr ''OPEN'', JStr ''T1'', JStr ''Ch1''), [HttpGet])
   \<and> last_status init \<noteq> JStr ''OPEN''
   \<and> is_live (reply (poll launch_ok live))
   \<and> \<not> shutdown_flag init
   \<and> filter is_launch_or_sleep (calls (poll_body (default_config True) (poll launch_refused live) init))
        = [Launch (JStr ''T1'') (JStr ''Ch1''), Sleep 5,
           Launch (JStr ''T1'') (JStr ''Ch1''), Sleep 5,
           Launch (JStr ''T1'') (JStr ''Ch1''), Sleep 10]
   \<and> launch_count (calls (poll_loop (poll_body (default_config True))
        [poll launch_refused live, poll launch_ok live, poll launch_ok live] init)) = 3
   \<and> outcome (poll_loop (poll_body (default_config True))
        [poll launch_refused live, poll launch_ok live, poll launch_ok live] init) = Polling"
proof -
  have h1: "\<forall>i. launch_fails (poll launch_refused live) (JStr ''T1'') i"
    by (simp add: launch_fails_def poll_def launch_refused_def)
  have h2: "get_live_info (reply (poll launch_refused live))
        = (Inr (JStr ''OPEN'', JStr ''T1'', JStr ''Ch1''), [HttpGet])"
    by code_simp
  have h3: "last_status init \<noteq> JStr ''OPEN''"
    by (simp add: init_def)
  have l: "is_live (reply (poll launch_ok live))"
    by code_simp
  then have h4: "\<forall>e\<in>set [poll launch_ok live, poll launch_ok live]. is_live (reply e)"
    by simp
  have h5: "\<not> shutdown_flag init"
    by (simp add: init_def)
  have n: "nat (retry_count_max (default_config True)) = Suc (Suc (Suc 0))"
    by (simp add: default_config_def)
  note t = launch_retry_exhausted [OF h1 h2 h3, of "default_config True"
      "[poll launch_ok live, poll launch_ok live]"]
  from h1 h2 h3 l h4 h5 t show ?thesis
    unfolding n by (simp del: poll_loop.simps add: numeral_3_eq_3)
qed

text \<open>
  C3 as stated fails where it says that the session is marked Failed. In
  \<^verbatim>\<open>hosting.py\<close> \<^verbatim>\<open>run_streamlink\<close> sets \<^verbatim>\<open>recording_info['status'] =
  'recording'\<close> before \<^verbatim>\<open>Popen\<close> and nothing resets it when \<^verbatim>\<open>Popen\<close> raises: after
  three refused launches \<^verbatim>\<open>get_status\<close> reports \<^verbatim>\<open>recording_status = 'recording'\<close>
  with \<^verbatim>\<open>is_recording = False\<close>. In \<^verbatim>\<open>chzzk-recorder.py\<close> there is no session record.
\<close>

theorem launch_retry_exhausted_counterexample:
  "(case outcome (get_status live
            (state (check_stream (default_config True) [poll launch_refused live] init))) of
      Inl e \<Rightarrow> False
    | Inr snap \<Rightarrow> recording_status snap = JStr ''recording'' \<and> \<not> is_recording snap)
   \<and> recording_info (state (check_stream (default_config False) [poll launch_refused live] init))
       = []"
  by code_simp

text \<open>
  C4, as the code has it. \<^verbatim>\<open>_signal_handler\<close> sets \<^verbatim>\<open>shutdown_flag\<close>, terminates
  the current recording process if there is one, and then ends the process itself with
  \<^verbatim>\<open>sys.exit(0)\<close>, raised in the main thread wherever the poll loop is (unless
  \<^verbatim>\<open>kill()\<close> raised before, see C5). The loop reads the flag only in the \<^verbatim>\<open>while\<close>
  test: once the flag is set it runs no further iteration, and no iteration changes the
  flag.
\<close>

theorem shutdown_by_signal:
  "state (signal_handler t s) = s\<lparr>shutdown_flag := True\<rparr>
   \<and> (\<not> kill_raises t \<longrightarrow> outcome (signal_handler t s) = Inl (SystemExit 0))
   \<and> (current_recording_process s = None \<longrightarrow> outcome (signal_handler t s) = Inl (SystemExit 0))
   \<and> (current_recording_process s = Some pid \<longrightarrow>
        Terminate pid \<in> set (calls (signal_handler t s)))
   \<and> (shutdown_flag s \<longrightarrow> poll_loop body envs s = (Returned, s, []))
   \<and> shutdown_flag (state (poll_body cfg env s)) = shutdown_flag s"
proof -
  have a: "state (signal_handler t s) = s\<lparr>shutdown_flag := True\<rparr>"
    by (cases t) (simp_all add: signal_handler_def Let_def split: option.splits)
  have x: "outcome (signal_handler t s) = Inl (SystemExit 0)" if "\<not> kill_raises t"
    using that by (cases t) (simp_all add: signal_handler_def Let_def split: option.splits)
  have y: "outcome (signal_handler t s) = Inl (SystemExit 0)"
    if "current_recording_process s = None"
    using that by (simp add: signal_handler_def)
  have c: "Terminate pid \<in> set (calls (signal_handler t s))"
    if "current_recording_process s = Some pid"
    using that by (cases t) (simp_all add: signal_handler_def)
  have b: "shutdown_flag s \<Longrightarrow> poll_loop body envs s = (Returned, s, [])"
    by (cases envs) simp_all
  from a x y b c poll_body_shutdown_flag [of cfg env s] show ?thesis
    by blast
qed

text \<open>
  The theorem at concrete inputs: a signal while process 100 is recording, a signal
  with no process, and the poll loop entered with the flag that a handler set.
\<close>

theorem shutdown_by_signal_witness:
  "current_recording_process (init\<lparr>current_recording_process := Some 100\<rparr>) = Some 100
   \<and> \<not> kill_raises TimesOut
   \<and> Terminate 100 \<in> set (calls (signal_handler TimesOut
        (init\<lparr>current_recording_process := Some 100\<rparr>)))
   \<and> outcome (signal_handler TimesOut (init\<lparr>current_recording_process := Some 100\<rparr>))
       = Inl (SystemExit 0)
   \<and> current_recording_process init = None
   \<and> shutdown_flag (state (signal_handler TimesOut init))
   \<and> outcome (signal_handler (KillRaises RuntimeError) init) = Inl (SystemExit 0)
   \<and> poll_loop (poll_body (default_config False)) [poll launch_ok live]
        (state (signal_handler TimesOut init))
       = (Returned, state (signal_handler TimesOut init), [])"
proof -
  have p: "current_recording_process (init\<lparr>current_recording_process := Some 100\<rparr>) = Some 100"
    by simp
  have k: "\<not> kill_raises TimesOut"
    by simp
  have n: "current_recording_process init = None"
    by (simp add: init_def)
  have f: "shutdown_flag (state (signal_handler TimesOut init))"
    by (simp add: signal_handler_def init_def)
  note t0 = shutdown_by_signal [where t = TimesOut
      and s = "init\<lparr>current_recording_process := Some 100\<rparr>" and pid = 100]
  note t1 = shutdown_by_signal [of "KillRaises RuntimeError" init]
  note t2 = shutdown_by_signal [where s = "state (signal_handler TimesOut init)"
      and body = "poll_body (default_config False)" and envs = "[poll launch_ok live]"]
  from p k n f t0 t1 t2 show ?thesis
    by blast
qed

text \<open>
  C4 as stated fails: the handler does not only set the flag. With a recording process
  it terminates the process and waits for it, and in every case it raises
  \<^verbatim>\<open>SystemExit\<close>, so the poll loop is abandoned where it stands and never reads the
  flag.
\<close>

theorem shutdown_by_signal_counterexample:
  "signal_handler ExitsInTime (init\<lparr>current_recording_process := Some 100\<rparr>)
     = (Inl (SystemExit 0),
        init\<lparr>current_recording_process := Some 100, shutdown_flag := True\<rparr>,
        [Log INFO, Log INFO, Terminate 100, WaitTimeout 100 10])
   \<and> outcome (signal_handler ExitsInTime init) = Inl (SystemExit 0)"
  by (simp add: signal_handler_def init_def)

text \<open>
  What the two stopping methods do when \<^verbatim>\<open>kill()\<close> does not raise: with a current
  recording process, both \<^verbatim>\<open>_signal_handler\<close> (before its \<^verbatim>\<open>sys.exit(0)\<close>) and
  \<^verbatim>\<open>stop_recording\<close> call \<^verbatim>\<open>terminate()\<close>, then \<^verbatim>\<open>wait(timeout=10)\<close>, and
  \<^verbatim>\<open>kill()\<close> exactly when the wait times out; when \<^verbatim>\<open>terminate\<close> or \<^verbatim>\<open>wait\<close>
  raises another exception, an error is logged and the method ends as it does
  otherwise.
\<close>

lemma recording_stopped_before_exit:
  assumes "current_recording_process s = Some pid" and "\<not> kill_raises t"
  shows "outcome (signal_handler t s) = Inl (SystemExit 0)
       \<and> outcome (stop_recording t now s) = Inr ()
       \<and> filter is_process_call (calls (signal_handler t s))
           = [Terminate pid] @ (if t = TerminateRaises then [] else [WaitTimeout pid 10])
             @ (if t = TimesOut then [Kill pid] else [])
       \<and> filter is_process_call (calls (stop_recording t now s))
           = filter is_process_call (calls (signal_handler t s))
       \<and> (t = TerminateRaises \<or> t = WaitRaises \<longrightarrow>
            Log ERROR \<in> set (calls (signal_handler t s))
            \<and> Log ERROR \<in> set (calls (stop_recording t now s)))
       \<and> current_recording_process (state (stop_recording t now s)) = None"
  using assms
  by (cases t) (simp_all add: signal_handler_def stop_recording_def Let_def)

lemma kill_exception_propagates:
  assumes "current_recording_process s = Some pid"
  shows "outcome (signal_handler (KillRaises e) s) = Inl e
       \<and> outcome (stop_recording (KillRaises e) now s) = Inl e
       \<and> Log ERROR \<notin> set (calls (signal_handler (KillRaises e) s))
       \<and> Log ERROR \<notin> set (calls (stop_recording (KillRaises e) now s))
       \<and> current_recording_process (state (stop_recording (KillRaises e) now s)) = None"
  using assms
  by (simp add: signal_handler_def stop_recording_def Let_def)

text \<open>
  C5, on \<^verbatim>\<open>_signal_handler\<close> and \<^verbatim>\<open>stop_recording\<close>. Process 100 is recording, it
  does not exit within the 10 seconds after \<^verbatim>\<open>terminate()\<close>, and the statement
  \<^verbatim>\<open>self.current_recording_process.kill()\<close> raises (\<^verbatim>\<open>AttributeError\<close> when the
  monitor thread has just cleared the attribute). The exception is raised inside the
  handler \<^verbatim>\<open>except subprocess.TimeoutExpired\<close>, so \<^verbatim>\<open>except Exception\<close> does not
  catch it: nothing is logged, the exception leaves \<^verbatim>\<open>_signal_handler\<close> in place of
  \<^verbatim>\<open>SystemExit(0)\<close>, and it leaves \<^verbatim>\<open>stop_recording\<close> after the \<^verbatim>\<open>finally\<close>
  block. Every other exception of the termination is logged and not propagated
  (\<open>recording_stopped_before_exit\<close>).
\<close>

theorem kill_exception_is_not_logged:
  "signal_handler (KillRaises AttributeError) (init\<lparr>current_recording_process := Some 100\<rparr>)
     = (Inl AttributeError,
        init\<lparr>current_recording_process := Some 100, shutdown_flag := True\<rparr>,
        [Log INFO, Log INFO, Terminate 100, WaitTimeout 100 10, Kill 100])
   \<and> outcome (stop_recording (KillRaises AttributeError) ''t1''
        (init\<lparr>current_recording_process := Some 100\<rparr>)) = Inl AttributeError
   \<and> calls (stop_recording (KillRaises AttributeError) ''t1''
        (init\<lparr>current_recording_process := Some 100\<rparr>))
       = [Log INFO, Terminate 100, WaitTimeout 100 10, Kill 100]"
  by (simp add: signal_handler_def stop_recording_def init_def)

text \<open>
  C6, as the code has it. \<^verbatim>\<open>get_status\<close> assigns nothing: the recorder is the same
  after the call. Its result is built from the recorder's fields and from a status
  query of its own: it calls \<^verbatim>\<open>get_live_info\<close>, and the fields \<^verbatim>\<open>live_status\<close>,
  \<^verbatim>\<open>live_title\<close> and \<^verbatim>\<open>channel_name\<close> are that query's answer, not the status the
  poll loop saw last.
\<close>

theorem get_status_reads:
  "state (get_status r s) = s
   \<and> calls (get_status r s) = snd (get_live_info r)
   \<and> (\<exists>status title name.
        fst (get_live_info r) = Inr (status, title, name)
        \<and> outcome (get_status r s)
            = Inr \<lparr>live_status = status, live_title = title, channel_name = name,
                   recording_status =
                     (case map_of (recording_info s) ''status'' of
                        None \<Rightarrow> JStr ''idle'' | Some v \<Rightarrow> v),
                   snapshot_recording_info = recording_info s,
                   is_recording = (current_recording_process s \<noteq> None),
                   process_pid = current_recording_process s,
                   snapshot_last_status = last_status s,
                   snapshot_retry_count = retry_count s,
                   snapshot_shutdown_flag = shutdown_flag s\<rparr>)"
proof -
  obtain status title name a0 where g: "get_live_info r = (Inr (status, title, name), a0)"
    by (rule get_live_info_cases)
  then show ?thesis
    by (simp add: get_status_def)
qed

theorem get_status_reads_witness:
  "state (get_status live init) = init
   \<and> calls (get_status live init) = [HttpGet]"
proof -
  have c: "snd (get_live_info live) = [HttpGet]"
    by code_simp
  from c get_status_reads [of live init] show ?thesis
    by simp
qed

text \<open>
  C6 as stated fails: the result is not a function of the recorder alone. The same
  recorder gives two different snapshots for two replies of the status service, and
  the call goes out to the network.
\<close>

theorem get_status_counterexample:
  "outcome (get_status live init) \<noteq> outcome (get_status offline init)
   \<and> HttpGet \<in> set (calls (get_status live init))"
  by code_simp

text \<open>
  C7, on \<^verbatim>\<open>check_stream\<close> of \<^verbatim>\<open>callisto.py\<close>. For the polls Live, three failed
  queries, Live, the counter of the script is 1 after the last poll, not 0: the last
  poll, like every live poll of the script, raises \<^verbatim>\<open>UnboundLocalError\<close> on line 219
  and is counted as an error (\<open>callisto_live_poll_raises\<close>). The loop is still running.
  In both files an iteration that completes leaves the counter at 0
  (\<open>poll_body_completes\<close>), and the class ends this scenario with the counter at 0
  (\<open>check_stream_scenario_B\<close>).
\<close>

theorem callisto_scenario_B_counts_an_error:
  "retry_count (state (callisto_check_stream (default_config False)
     (map (poll launch_ok) [live, RequestFailed, RequestFailed, RequestFailed, live]) init)) = 1
   \<and> outcome (callisto_check_stream (default_config False)
     (map (poll launch_ok) [live, RequestFailed, RequestFailed, RequestFailed, live]) init)
       = Polling"
  by code_simp

text \<open>
  C8. A second \<^verbatim>\<open>stop_recording\<close> right after a first one finds no current process:
  it makes no call and leaves the recorder, \<^verbatim>\<open>recording_info\<close> included, as the first
  call left it.
\<close>

theorem stop_recording_idempotent:
  "stop_recording t2 now2 (state (stop_recording t1 now1 s))
     = (Inr (), state (stop_recording t1 now1 s), [])"
proof -
  have "current_recording_process (state (stop_recording t1 now1 s)) = None"
    by (cases t1) (simp_all add: stop_recording_def Let_def split: option.splits)
  then show ?thesis
    by (simp add: stop_recording_def)
qed

theorem stop_recording_idempotent_witness:
  "calls (stop_recording TimesOut ''t1'' (init\<lparr>current_recording_process := Some 100\<rparr>))
     = [Log INFO, Terminate 100, WaitTimeout 100 10, Kill 100, Log INFO]
   \<and> stop_recording ExitsInTime ''t2''
        (state (stop_recording TimesOut ''t1'' (init\<lparr>current_recording_process := Some 100\<rparr>)))
     = (Inr (),
        state (stop_recording TimesOut ''t1'' (init\<lparr>current_recording_process := Some 100\<rparr>)),
        [])"
proof -
  have c: "calls (stop_recording TimesOut ''t1'' (init\<lparr>current_recording_process := Some 100\<rparr>))
     = [Log INFO, Terminate 100, WaitTimeout 100 10, Kill 100, Log INFO]"
    by (simp add: stop_recording_def Let_def)
  from c stop_recording_idempotent [of ExitsInTime "''t2''" TimesOut "''t1''"
      "init\<lparr>current_recording_process := Some 100\<rparr>"]
  show ?thesis
    by simp
qed




text \<open>
  C10. \<^verbatim>\<open>get_live_info\<close> never raises: it returns a triple for every outcome of the
  query. For a network error, for an HTTP status that \<^verbatim>\<open>raise_for_status\<close> rejects, for
  a body that is not JSON, and for any other exception in the \<^verbatim>\<open>try\<close> block (a
  document of an unexpected shape), the triple is \<^verbatim>\<open>(None, None, None)\<close>, which is also
  what a reply without \<^verbatim>\<open>content\<close> gives: the caller cannot tell a failed query from
  a channel without live content.
\<close>

theorem get_live_info_total:
  "(\<exists>info. fst (get_live_info r) = Inr info)
   \<and> fst (get_live_info RequestFailed) = Inr none3
   \<and> (400 \<le> code \<and> code < 600 \<longrightarrow> fst (get_live_info (Reply code body)) = Inr none3)
   \<and> fst (get_live_info (Reply code None)) = Inr none3
   \<and> (query_failed r \<longrightarrow> fst (get_live_info r) = Inr none3)
   \<and> (query_failed r \<and> no_content r' \<longrightarrow> fst (get_live_info r) = fst (get_live_info r'))"
proof -
  have a: "query_failed RequestFailed"
    by (simp add: query_failed_def live_info_body_def fetch_json_def)
  have b: "400 \<le> code \<and> code < 600 \<Longrightarrow> query_failed (Reply code body)"
    by (simp add: query_failed_def live_info_body_def fetch_json_def)
  have c: "query_failed (Reply code None)"
    by (simp add: query_failed_def live_info_body_def fetch_json_def)
  show ?thesis
    using a b c get_live_info_returns [of r] get_live_info_failed get_live_info_no_content
    by metis
qed

theorem get_live_info_total_witness:
  "query_failed (Reply 200 (Some (JArr [])))
   \<and> no_content (Reply 200 (Some (JObj [(''code'', JNum 200), (''content'', JNull)])))
   \<and> fst (get_live_info (Reply 200 (Some (JArr [])))) = Inr none3
   \<and> fst (get_live_info (Reply 503 (Some (JObj [])))) = Inr none3
   \<and> fst (get_live_info (Reply 200 (Some (JArr []))))
       = fst (get_live_info (Reply 200 (Some (JObj [(''code'', JNum 200), (''content'', JNull)]))))"
proof -
  have q: "query_failed (Reply 200 (Some (JArr [])))"
    by (simp add: query_failed_def live_info_body_def fetch_json_def)
  have n: "no_content (Reply 200 (Some (JObj [(''code'', JNum 200), (''content'', JNull)])))"
    by (simp add: no_content_def fetch_json_def)
  have h: "(400::nat) \<le> 503 \<and> (503::nat) < 600"
    by simp
  note t = get_live_info_total [of "Reply 200 (Some (JArr []))" 503 "Some (JObj [])"
      "Reply 200 (Some (JObj [(''code'', JNum 200), (''content'', JNull)]))"]
  from q n h t show ?thesis
    by blast
qed

end
